theory Spec2Isabelle
  imports Main
begin

section \<open>The cat service of nestjs-mongodb-docs\<close>

text \<open>
  The verified unit is \<^verbatim>\<open>src/resource/cat/cat.service.ts\<close>:
  \<^verbatim>\<open>
  export class CatService {
    constructor(@InjectModel(Cat.name) private catModel: Model<CatDocument>) { }

    async create(createCatDto: CreateCatDto): Promise<Cat> {
      const createdCat = new this.catModel(createCatDto)
      return createdCat.save()
    }
    async findAll() {
     return this.catModel.find().exec()
    }
    findOne(id: number) {
      return `This action returns a #${id} cat`;
    }
    update(id: number, updateCatDto: UpdateCatDto) {
      return `This action updates a #${id} cat`;
    }
    remove(id: number) {
      return `This action removes a #${id} cat`;
    }
  }
  \<close>
  The service is glue around a collection handle (a Mongoose model) that it receives at
  construction. The handle is third-party code: it is a parameter of the model below, and
  every theorem about \<open>create\<close> and \<open>findAll\<close> holds for every handle, or for every handle
  that meets a stated contract.
\<close>

subsection \<open>Numbers and their text\<close>

text \<open>
  A JavaScript \<open>number\<close> is modelled by its integer values. The numbers that this model
  stands for are the safe integers, those of magnitude at most \<open>2^53 - 1\<close>
  (\<open>Number.isSafeInteger\<close>): each of them is a number exactly, and a template literal
  converts it to its decimal digits, with a leading minus sign when negative. \<open>ToString\<close>
  is that conversion. Outside the safe integers JavaScript behaves differently (it rounds
  to the nearest double, prints the shortest digits that read back, and switches to the
  exponent format from \<open>10^21\<close> on), and fractions, \<open>NaN\<close> and the infinities are no
  integers at all: none of this is modelled, and every statement about the text of a number
  assumes \<open>isSafeInteger\<close>.
\<close>

type_synonym number = int

definition digit_char :: "nat \<Rightarrow> char" where
  "digit_char d = ''0123456789'' ! (d mod 10)"

fun decimal :: "nat \<Rightarrow> string" where
  "decimal n = (if n < 10 then [digit_char n] else decimal (n div 10) @ [digit_char n])"

declare decimal.simps [simp del]

definition ToString :: "number \<Rightarrow> string" where
  "ToString n = (if n < 0 then CHR ''-'' # decimal (nat (- n)) else decimal (nat n))"

definition isSafeInteger :: "number \<Rightarrow> bool" where
  "isSafeInteger n = (- 9007199254740991 \<le> n \<and> n \<le> 9007199254740991)"

text \<open>
  What the text of a number is, is stated by reading it back. \<open>read_integer\<close> reads a
  decimal numeral in its one canonical form: digits only, no leading zero except in the
  numeral \<open>0\<close> itself, a minus sign in front of a negative number and never in front of
  zero. Any other text reads as \<open>None\<close>, so a text that reads as \<open>n\<close> is the decimal
  numeral of \<open>n\<close> and no other text is.
\<close>

definition digit_of :: "char \<Rightarrow> nat option" where
  "digit_of = map_of
     [(CHR ''0'', 0), (CHR ''1'', 1), (CHR ''2'', 2), (CHR ''3'', 3), (CHR ''4'', 4),
      (CHR ''5'', 5), (CHR ''6'', 6), (CHR ''7'', 7), (CHR ''8'', 8), (CHR ''9'', 9)]"

fun read_digits :: "string \<Rightarrow> nat \<Rightarrow> nat option" where
  "read_digits [] acc = Some acc"
| "read_digits (c # cs) acc =
     (case digit_of c of None \<Rightarrow> None | Some d \<Rightarrow> read_digits cs (10 * acc + d))"

definition read_natural :: "string \<Rightarrow> nat option" where
  "read_natural s =
     (case s of
        [] \<Rightarrow> None
      | c # cs \<Rightarrow> if c = CHR ''0'' \<and> cs \<noteq> [] then None else read_digits s 0)"

definition read_integer :: "string \<Rightarrow> int option" where
  "read_integer s =
     (case s of
        [] \<Rightarrow> None
      | c # cs \<Rightarrow>
          if c = CHR ''-''
          then (case read_natural cs of
                  None \<Rightarrow> None
                | Some n \<Rightarrow> if n = 0 then None else Some (- int n))
          else map_option int (read_natural s))"

subsection \<open>Records of the schema and the transfer objects\<close>

text \<open>
  Modelled from the spec: the \<open>Cat\<close> schema class (\<^verbatim>\<open>src/schema/cat.schema.ts\<close>), which
  the service imports. Its fields are those of the data model: \<open>name\<close> (text), \<open>age\<close>
  (numeric), \<open>breed\<close> (text), \<open>tags\<close> (an optional sequence of text values, empty when
  absent) and \<open>owner\<close> (an optional reference, by identifier, to a record of the separate
  Owner collection).
\<close>

record Cat =
  name :: string
  age :: number
  breed :: string
  tags :: "string list"
  owner :: "string option"

text \<open>
  Modelled from the spec: \<open>CreateCatDto\<close> (\<^verbatim>\<open>dto/create-cat.dto.ts\<close>), a plain data
  carrier that matches the record shape without the server-assigned fields. TypeScript
  types are structural, so it is the type \<open>Cat\<close> itself.
\<close>

type_synonym CreateCatDto = Cat

text \<open>
  Modelled from the spec: \<open>CatDocument\<close>, the hydrated document of the schema: the fields
  of \<open>Cat\<close> and the identifier \<open>_id\<close> that the storage layer generates, here \<open>cat_id\<close>, a
  text (an identifier cannot start with an underscore, and \<open>id\<close> is the identity function).
\<close>

record CatDocument = Cat +
  cat_id :: string

text \<open>
  Modelled from the spec: \<open>UpdateCatDto\<close> (\<^verbatim>\<open>dto/update-cat.dto.ts\<close>), the carrier of a
  partial update: every field of the create input, each one optional.
\<close>

record UpdateCatDto =
  new_name :: "string option"
  new_age :: "number option"
  new_breed :: "string option"
  new_tags :: "string list option"
  new_owner :: "string option option"

subsection \<open>The collection handle\<close>

text \<open>
  The handle \<open>Model<CatDocument>\<close> is used through three operations. Each of them runs
  against the outside world \<open>'w\<close> (the database, the connection, the generator of
  identifiers), may change it, and either returns a value or raises an error of the
  handle's own type \<open>'e\<close> (a thrown exception or a rejected promise):
  \<^item> \<open>new_doc\<close> is \<^verbatim>\<open>new this.catModel(dto)\<close>, the document built in memory;
  \<^item> \<open>save\<close> is \<^verbatim>\<open>doc.save()\<close>, awaited;
  \<^item> \<open>find_exec\<close> is \<^verbatim>\<open>this.catModel.find().exec()\<close>, awaited: the query built by
    \<open>find()\<close> with no filter, and its execution.
  An awaited promise is modelled by its outcome; other requests interleaved at an
  \<open>await\<close> are not part of the model.
\<close>

record ('w, 'e) Model =
  new_doc :: "CreateCatDto \<Rightarrow> 'w \<Rightarrow> ('e + CatDocument) \<times> 'w"
  save :: "CatDocument \<Rightarrow> 'w \<Rightarrow> ('e + CatDocument) \<times> 'w"
  find_exec :: "'w \<Rightarrow> ('e + CatDocument list) \<times> 'w"

subsection \<open>The service\<close>

text \<open>
  The service object has one field, \<open>catModel\<close>. A method runs in a state made of the
  object (\<open>this\<close>) and the outside world, and returns its result with the state it leaves.
\<close>

record ('w, 'e) CatService =
  catModel :: "('w, 'e) Model"

record ('w, 'e) state =
  this :: "('w, 'e) CatService"
  world :: 'w

definition constructor :: "('w, 'e) Model \<Rightarrow> ('w, 'e) CatService" where
  "constructor m = \<lparr>catModel = m\<rparr>"

definition create ::
  "CreateCatDto \<Rightarrow> ('w, 'e) state \<Rightarrow> ('e + CatDocument) \<times> ('w, 'e) state" where
  "create createCatDto st =
     (case new_doc (catModel (this st)) createCatDto (world st) of
        (Inl e, w) \<Rightarrow> (Inl e, st\<lparr>world := w\<rparr>)
      | (Inr createdCat, w) \<Rightarrow>
          (case save (catModel (this st)) createdCat w of
             (r, w') \<Rightarrow> (r, st\<lparr>world := w'\<rparr>)))"

definition findAll :: "('w, 'e) state \<Rightarrow> ('e + CatDocument list) \<times> ('w, 'e) state" where
  "findAll st =
     (case find_exec (catModel (this st)) (world st) of
        (r, w') \<Rightarrow> (r, st\<lparr>world := w'\<rparr>))"

definition findOne :: "number \<Rightarrow> ('w, 'e) state \<Rightarrow> string \<times> ('w, 'e) state" where
  "findOne id' st = (''This action returns a #'' @ ToString id' @ '' cat'', st)"

definition update ::
  "number \<Rightarrow> UpdateCatDto \<Rightarrow> ('w, 'e) state \<Rightarrow> string \<times> ('w, 'e) state" where
  "update id' updateCatDto st = (''This action updates a #'' @ ToString id' @ '' cat'', st)"

definition remove :: "number \<Rightarrow> ('w, 'e) state \<Rightarrow> string \<times> ('w, 'e) state" where
  "remove id' st = (''This action removes a #'' @ ToString id' @ '' cat'', st)"

subsection \<open>Calls issued by a caller\<close>

text \<open>
  A caller holds the service object and calls its methods one after another. \<open>call\<close>
  names a method with its arguments, \<open>reply\<close> is what a call returns, \<open>invoke\<close> performs
  one call and \<open>calls\<close> performs a list of them, collecting every outcome (an error raised
  by one call does not prevent the next call).
\<close>

datatype call =
  Create CreateCatDto
| FindAll
| FindOne number
| Update number UpdateCatDto
| Remove number

datatype reply =
  Document CatDocument
| Documents "CatDocument list"
| Text string

fun invoke :: "call \<Rightarrow> ('w, 'e) state \<Rightarrow> ('e + reply) \<times> ('w, 'e) state" where
  "invoke (Create dto) st = (case create dto st of (r, st') \<Rightarrow> (map_sum (\<lambda>e. e) Document r, st'))"
| "invoke FindAll st = (case findAll st of (r, st') \<Rightarrow> (map_sum (\<lambda>e. e) Documents r, st'))"
| "invoke (FindOne id') st = (case findOne id' st of (s, st') \<Rightarrow> (Inr (Text s), st'))"
| "invoke (Update id' dto) st = (case update id' dto st of (s, st') \<Rightarrow> (Inr (Text s), st'))"
| "invoke (Remove id') st = (case remove id' st of (s, st') \<Rightarrow> (Inr (Text s), st'))"

fun calls :: "call list \<Rightarrow> ('w, 'e) state \<Rightarrow> ('e + reply) list \<times> ('w, 'e) state" where
  "calls [] st = ([], st)"
| "calls (c # cs) st =
     (case invoke c st of (r, st') \<Rightarrow> (case calls cs st' of (rs, st'') \<Rightarrow> (r # rs, st'')))"

subsection \<open>A sample collection handle\<close>

text \<open>
  The theorems below are instantiated at a concrete handle: a collection kept in memory.
  Its world holds the stored documents in insertion order, a counter from which
  identifiers are generated, and whether the connection is up. Building a document copies
  the input's fields and draws the identifier; \<open>save\<close> appends the document; both \<open>save\<close>
  and the query raise \<open>ConnectionLost\<close> when the connection is down. No field is checked.
\<close>

datatype storage_error = ConnectionLost

record memory =
  stored :: "CatDocument list"
  counter :: nat
  connected :: bool

definition memory_new_doc ::
  "CreateCatDto \<Rightarrow> memory \<Rightarrow> (storage_error + CatDocument) \<times> memory" where
  "memory_new_doc dto w =
     (Inr \<lparr>name = name dto, age = age dto, breed = breed dto, tags = tags dto,
           owner = owner dto, cat_id = ''cat'' @ decimal (counter w)\<rparr>,
      w\<lparr>counter := Suc (counter w)\<rparr>)"

definition memory_save ::
  "CatDocument \<Rightarrow> memory \<Rightarrow> (storage_error + CatDocument) \<times> memory" where
  "memory_save d w =
     (if connected w then (Inr d, w\<lparr>stored := stored w @ [d]\<rparr>) else (Inl ConnectionLost, w))"

definition memory_find_exec :: "memory \<Rightarrow> (storage_error + CatDocument list) \<times> memory" where
  "memory_find_exec w = (if connected w then (Inr (stored w), w) else (Inl ConnectionLost, w))"

definition memory_model :: "(memory, storage_error) Model" where
  "memory_model = \<lparr>new_doc = memory_new_doc, save = memory_save, find_exec = memory_find_exec\<rparr>"

definition empty_memory :: memory where
  "empty_memory = \<lparr>stored = [], counter = 0, connected = True\<rparr>"

definition fresh_state :: "(memory, storage_error) state" where
  "fresh_state = \<lparr>this = constructor memory_model, world = empty_memory\<rparr>"

definition tom :: CreateCatDto where
  "tom = \<lparr>name = ''Tom'', age = 3, breed = ''Tabby'', tags = [], owner = None\<rparr>"

section \<open>Properties\<close>

subsection \<open>The text of a number reads back as the number\<close>

lemma below_ten:
  "(d::nat) < 10 \<Longrightarrow>
   d = 0 \<or> d = 1 \<or> d = 2 \<or> d = 3 \<or> d = 4 \<or> d = 5 \<or> d = 6 \<or> d = 7 \<or> d = 8 \<or> d = 9"
  by arith

lemma digit_of_digit_char: "digit_of (digit_char n) = Some (n mod 10)"
proof -
  have "n mod 10 < 10" by simp
  from below_ten [OF this] show ?thesis
    by (auto simp: digit_char_def digit_of_def)
qed

lemma digit_char_of_digit: "digit_of c = Some d \<Longrightarrow> d < 10 \<and> c = digit_char d"
  by (auto simp: digit_of_def digit_char_def split: if_splits)



lemma read_digits_append:
  "read_digits (xs @ ys) acc =
     (case read_digits xs acc of None \<Rightarrow> None | Some a \<Rightarrow> read_digits ys a)"
  by (induction xs arbitrary: acc) (auto split: option.splits)

lemma read_digits_decimal: "read_digits (decimal n) 0 = Some n"
proof (induction n rule: decimal.induct)
  case (1 n)
  show ?case
  proof (cases "n < 10")
    case True
    then show ?thesis
      by (simp add: decimal.simps [of n] digit_of_digit_char)
  next
    case False
    then have "read_digits (decimal (n div 10)) 0 = Some (n div 10)"
      using 1 by simp
    with False show ?thesis
      by (simp add: decimal.simps [of n] read_digits_append digit_of_digit_char)
  qed
qed

lemma decimal_not_Nil: "decimal n \<noteq> []"
  by (simp add: decimal.simps [of n])

lemma digit_char_zero: "n < 10 \<Longrightarrow> digit_char n = CHR ''0'' \<Longrightarrow> n = 0"
proof -
  assume "n < 10" and z: "digit_char n = CHR ''0''"
  then have "n \<in> {0, 1, 2, 3, 4, 5, 6, 7, 8, 9}" by auto
  with z show "n = 0"
    by (auto simp: digit_char_def)
qed

lemma hd_decimal: "0 < n \<Longrightarrow> hd (decimal n) \<noteq> CHR ''0''"
proof (induction n rule: decimal.induct)
  case (1 n)
  show ?case
  proof (cases "n < 10")
    case True
    with 1(2) show ?thesis
      using digit_char_zero [of n] by (auto simp: decimal.simps [of n])
  next
    case False
    then have "hd (decimal (n div 10)) \<noteq> CHR ''0''"
      using 1 by simp
    with False show ?thesis
      by (simp add: decimal.simps [of n] decimal_not_Nil)
  qed
qed

lemma read_natural_decimal: "read_natural (decimal n) = Some n"
proof (cases "decimal n")
  case Nil
  then show ?thesis using decimal_not_Nil by simp
next
  case (Cons c cs)
  show ?thesis
  proof (cases "n = 0")
    case True
    then show ?thesis
      by (simp add: read_natural_def decimal.simps [of 0] digit_char_def digit_of_def)
  next
    case False
    then have "c \<noteq> CHR ''0''"
      using hd_decimal [of n] Cons by simp
    then show ?thesis
      using read_digits_decimal [of n] Cons by (simp add: read_natural_def)
  qed
qed

lemma hd_decimal_not_minus: "hd (decimal n) \<noteq> CHR ''-''"
proof (induction n rule: decimal.induct)
  case (1 n)
  show ?case
  proof (cases "n < 10")
    case True
    then have "n \<in> {0, 1, 2, 3, 4, 5, 6, 7, 8, 9}" by auto
    then show ?thesis
      by (auto simp: decimal.simps [of n] digit_char_def)
  next
    case False
    with 1 show ?thesis
      by (simp add: decimal.simps [of n] decimal_not_Nil)
  qed
qed

lemma read_integer_ToString: "read_integer (ToString n) = Some n"
proof (cases "n < 0")
  case True
  then show ?thesis
    by (simp add: ToString_def read_integer_def read_natural_decimal)
next
  case False
  obtain c cs where dec: "decimal (nat n) = c # cs"
    using decimal_not_Nil [of "nat n"] by (cases "decimal (nat n)") auto
  then have "c \<noteq> CHR ''-''"
    using hd_decimal_not_minus [of "nat n"] by simp
  then show ?thesis
    using False dec read_natural_decimal [of "nat n"]
    by (simp add: ToString_def read_integer_def)
qed

lemma read_digits_mono: "read_digits cs acc = Some m \<Longrightarrow> acc \<le> m"
proof (induction cs arbitrary: acc)
  case Nil
  then show ?case by simp
next
  case (Cons c cs)
  then obtain d where "digit_of c = Some d" and "read_digits cs (10 * acc + d) = Some m"
    by (auto split: option.splits)
  with Cons.IH [of "10 * acc + d"] show ?case by simp
qed

lemma read_digits_snoc:
  assumes "read_digits (xs @ [c]) 0 = Some n"
  shows "\<exists>m d. read_digits xs 0 = Some m \<and> digit_of c = Some d \<and> n = 10 * m + d"
  using assms by (auto simp: read_digits_append split: option.splits)

lemma leading_digit_positive:
  assumes "xs \<noteq> []" and "hd xs \<noteq> CHR ''0''" and "read_digits xs 0 = Some m"
  shows "0 < m"
proof -
  obtain c cs where xs: "xs = c # cs"
    using assms(1) by (cases xs) auto
  obtain d where d: "digit_of c = Some d" and rest: "read_digits cs d = Some m"
    using assms(3) xs by (auto split: option.splits)
  have "d \<noteq> 0"
    using d assms(2) xs by (auto simp: digit_of_def split: if_splits)
  with read_digits_mono [OF rest] show ?thesis by simp
qed

lemma read_digits_unique:
  "xs \<noteq> [] \<Longrightarrow> hd xs \<noteq> CHR ''0'' \<Longrightarrow> read_digits xs 0 = Some n \<Longrightarrow> xs = decimal n"
proof (induction xs arbitrary: n rule: rev_induct)
  case Nil
  then show ?case by simp
next
  case (snoc c xs)
  obtain m d where m: "read_digits xs 0 = Some m" and d: "digit_of c = Some d"
    and n: "n = 10 * m + d"
    using read_digits_snoc [OF snoc.prems(3)] by blast
  have d10: "d < 10" and c: "c = digit_char d"
    using digit_char_of_digit [OF d] by simp_all
  show ?case
  proof (cases "xs = []")
    case True
    then have "n = d" using m n by simp
    with True d10 c show ?thesis
      by (simp add: decimal.simps [of d])
  next
    case False
    then have "hd xs \<noteq> CHR ''0''"
      using snoc.prems(2) by simp
    then have xs: "xs = decimal m" and "0 < m"
      using snoc.IH [OF False _ m] leading_digit_positive [OF False _ m] by simp_all
    then have "\<not> n < 10" and "n div 10 = m" and "n mod 10 = d"
      using n d10 by simp_all
    then have "decimal n = decimal m @ [digit_char d]"
      by (simp add: decimal.simps [of n] digit_char_def)
    with xs c show ?thesis by simp
  qed
qed

lemma read_natural_unique: "read_natural s = Some n \<Longrightarrow> s = decimal n"
proof (cases s)
  case Nil
  assume "read_natural s = Some n"
  with Nil show ?thesis by (simp add: read_natural_def)
next
  case (Cons c cs)
  assume r: "read_natural s = Some n"
  show ?thesis
  proof (cases "c = CHR ''0''")
    case True
    then have "cs = []" and "n = 0"
      using r Cons by (auto simp: read_natural_def digit_of_def split: if_splits)
    with True Cons show ?thesis
      by (simp add: decimal.simps [of 0] digit_char_def)
  next
    case False
    then have "read_digits s 0 = Some n"
      using r Cons by (simp add: read_natural_def)
    with False Cons show ?thesis
      using read_digits_unique [of s n] by simp
  qed
qed

lemma read_integer_unique: "read_integer s = Some n \<Longrightarrow> s = ToString n"
proof (cases s)
  case Nil
  assume "read_integer s = Some n"
  with Nil show ?thesis by (simp add: read_integer_def)
next
  case (Cons c cs)
  assume r: "read_integer s = Some n"
  show ?thesis
  proof (cases "c = CHR ''-''")
    case True
    then obtain k where k: "read_natural cs = Some k" and "k \<noteq> 0" and "n = - int k"
      using r Cons by (auto simp: read_integer_def split: option.splits if_splits)
    then have "n < 0" and "nat (- n) = k" by simp_all
    with read_natural_unique [OF k] True Cons show ?thesis
      by (simp add: ToString_def)
  next
    case False
    then obtain k where k: "read_natural s = Some k" and "n = int k"
      using r Cons by (auto simp: read_integer_def)
    then have "\<not> n < 0" and "nat n = k" by simp_all
    with read_natural_unique [OF k] show ?thesis
      by (simp add: ToString_def)
  qed
qed

lemma read_integer_iff: "read_integer s = Some n \<longleftrightarrow> s = ToString n"
  using read_integer_unique read_integer_ToString by blast

subsection \<open>Helper facts\<close>

lemma invoke_this: "this (snd (invoke c st)) = this st"
  by (cases c)
    (simp_all add: create_def findAll_def findOne_def update_def remove_def
      split: prod.splits sum.splits)

lemma calls_this: "this (snd (calls cs st)) = this st"
proof (induction cs arbitrary: st)
  case Nil
  show ?case by simp
next
  case (Cons c cs)
  obtain r st' where step: "invoke c st = (r, st')"
    by (cases "invoke c st")
  obtain rs st'' where rest: "calls cs st' = (rs, st'')"
    by (cases "calls cs st'")
  have "this st'' = this st'"
    using Cons.IH [of st'] rest by simp
  moreover have "this st' = this st"
    using invoke_this [of c st] step by simp
  ultimately show ?case
    using step rest by simp
qed

lemma memory_insert_contract:
  assumes "new_doc memory_model dto w = (Inr d, w1)" and "save memory_model d w1 = (Inr d', w2)"
  shows "name d' = name dto \<and> age d' = age dto \<and> breed d' = breed dto \<and> cat_id d' \<noteq> []"
  using assms
  by (auto simp: memory_model_def memory_new_doc_def memory_save_def split: if_splits)

lemma fresh_handle: "catModel (this fresh_state) = memory_model"
  by (simp add: fresh_state_def constructor_def)

lemma fresh_world: "world fresh_state = empty_memory"
  by (simp add: fresh_state_def)

lemma create_on_lost_connection:
  "create tom (fresh_state\<lparr>world := empty_memory\<lparr>connected := False\<rparr>\<rparr>) =
     (Inl ConnectionLost,
      fresh_state\<lparr>world := \<lparr>stored = [], counter = Suc 0, connected = False\<rparr>\<rparr>)"
  by (simp add: create_def fresh_state_def constructor_def memory_model_def
      memory_new_doc_def memory_save_def empty_memory_def)

lemma findAll_on_lost_connection:
  "findAll (fresh_state\<lparr>world := empty_memory\<lparr>connected := False\<rparr>\<rparr>) =
     (Inl ConnectionLost, fresh_state\<lparr>world := empty_memory\<lparr>connected := False\<rparr>\<rparr>)"
  by (simp add: findAll_def fresh_state_def constructor_def memory_model_def
      memory_find_exec_def)

subsection \<open>The two operations that reach storage\<close>

text \<open>
  C1. For every input that the handle accepts, \<open>create\<close> returns the persisted record, and
  its \<open>name\<close>, \<open>age\<close> and \<open>breed\<close> are those of the input, with a non-empty generated
  identifier. The handle is any handle that keeps the contract of an insertion: when a
  document built from an input is saved, the persisted record that \<open>save\<close> returns carries
  the input's \<open>name\<close>, \<open>age\<close> and \<open>breed\<close> and a non-empty identifier. The witness is the
  example \<open>create({name: "Tom", age: 3, breed: "Tabby"})\<close>.
\<close>

theorem create_returns_input_fields:
  assumes contract: "\<And>dto w d w1 d' w2.
      new_doc (catModel (this st)) dto w = (Inr d, w1) \<Longrightarrow>
      save (catModel (this st)) d w1 = (Inr d', w2) \<Longrightarrow>
      name d' = name dto \<and> age d' = age dto \<and> breed d' = breed dto \<and> cat_id d' \<noteq> []"
    and built: "new_doc (catModel (this st)) input (world st) = (Inr createdCat, w1)"
    and saved: "save (catModel (this st)) createdCat w1 = (Inr persisted, w2)"
  shows "create input st = (Inr persisted, st\<lparr>world := w2\<rparr>) \<and>
    name persisted = name input \<and> age persisted = age input \<and>
    breed persisted = breed input \<and> cat_id persisted \<noteq> []"
proof -
  have "create input st = (Inr persisted, st\<lparr>world := w2\<rparr>)"
    using built saved by (simp add: create_def)
  moreover have "name persisted = name input \<and> age persisted = age input \<and>
      breed persisted = breed input \<and> cat_id persisted \<noteq> []"
    using contract [OF built saved] .
  ultimately show ?thesis
    by simp
qed

theorem create_returns_input_fields_witness:
  "\<exists>doc st'. create tom fresh_state = (Inr doc, st') \<and>
     name doc = ''Tom'' \<and> age doc = 3 \<and> breed doc = ''Tabby'' \<and> cat_id doc \<noteq> []"
proof -
  let ?cat = "\<lparr>name = ''Tom'', age = 3, breed = ''Tabby'', tags = [], owner = None,
    cat_id = ''cat0''\<rparr>"
  let ?w1 = "\<lparr>stored = [], counter = Suc 0, connected = True\<rparr>"
  let ?w2 = "\<lparr>stored = [?cat], counter = Suc 0, connected = True\<rparr>"
  have contract: "\<And>dto w d w1 d' w2.
      new_doc (catModel (this fresh_state)) dto w = (Inr d, w1) \<Longrightarrow>
      save (catModel (this fresh_state)) d w1 = (Inr d', w2) \<Longrightarrow>
      name d' = name dto \<and> age d' = age dto \<and> breed d' = breed dto \<and> cat_id d' \<noteq> []"
    unfolding fresh_handle by (rule memory_insert_contract)
  have built: "new_doc (catModel (this fresh_state)) tom (world fresh_state) = (Inr ?cat, ?w1)"
    by (simp add: fresh_handle fresh_world memory_model_def memory_new_doc_def tom_def
        empty_memory_def decimal.simps digit_char_def)
  have saved: "save (catModel (this fresh_state)) ?cat ?w1 = (Inr ?cat, ?w2)"
    by (simp add: fresh_handle memory_model_def memory_save_def)
  have "create tom fresh_state = (Inr ?cat, fresh_state\<lparr>world := ?w2\<rparr>) \<and>
    name ?cat = name tom \<and> age ?cat = age tom \<and> breed ?cat = breed tom \<and> cat_id ?cat \<noteq> []"
    using create_returns_input_fields [OF contract built saved] .
  then show ?thesis
    by (simp add: tom_def)
qed

text \<open>
  C2. After \<open>create\<close> has succeeded, the sequence that the next \<open>findAll\<close> returns
  includes the created record, for every handle with the read-your-writes guarantee:
  a query that runs right after a successful \<open>save\<close> lists the record that was saved.
\<close>

theorem findAll_after_create_includes_record:
  assumes read_your_writes: "\<And>d w d' w' ds w''.
      save (catModel (this st)) d w = (Inr d', w') \<Longrightarrow>
      find_exec (catModel (this st)) w' = (Inr ds, w'') \<Longrightarrow> d' \<in> set ds"
    and created: "create input st = (Inr doc, st')"
    and listed: "findAll st' = (Inr docs, st'')"
  shows "doc \<in> set docs"
proof -
  obtain createdCat w1 where built:
    "new_doc (catModel (this st)) input (world st) = (Inr createdCat, w1)"
    using created
    by (cases "new_doc (catModel (this st)) input (world st)")
      (auto simp: create_def split: sum.splits)
  obtain w2 where saved: "save (catModel (this st)) createdCat w1 = (Inr doc, w2)"
    and after: "st' = st\<lparr>world := w2\<rparr>"
    using created built
    by (cases "save (catModel (this st)) createdCat w1") (auto simp: create_def)
  obtain w3 where queried: "find_exec (catModel (this st)) w2 = (Inr docs, w3)"
    using listed after
    by (cases "find_exec (catModel (this st)) w2") (auto simp: findAll_def)
  show ?thesis
    using read_your_writes [OF saved queried] .
qed

theorem findAll_after_create_includes_record_witness:
  "\<exists>doc st' docs st''. create tom fresh_state = (Inr doc, st') \<and>
     findAll st' = (Inr docs, st'') \<and> doc \<in> set docs"
proof -
  let ?cat = "\<lparr>name = ''Tom'', age = 3, breed = ''Tabby'', tags = [], owner = None,
    cat_id = ''cat0''\<rparr>"
  let ?st' = "fresh_state\<lparr>world := \<lparr>stored = [?cat], counter = Suc 0, connected = True\<rparr>\<rparr>"
  have read_your_writes: "\<And>d w d' w' ds w''.
      save (catModel (this fresh_state)) d w = (Inr d', w') \<Longrightarrow>
      find_exec (catModel (this fresh_state)) w' = (Inr ds, w'') \<Longrightarrow> d' \<in> set ds"
    unfolding fresh_handle
    by (auto simp: memory_model_def memory_save_def memory_find_exec_def split: if_splits)
  have created: "create tom fresh_state = (Inr ?cat, ?st')"
    by (simp add: create_def fresh_handle fresh_world memory_model_def memory_new_doc_def
        memory_save_def tom_def empty_memory_def decimal.simps digit_char_def)
  have listed: "findAll ?st' = (Inr [?cat], ?st')"
    by (simp add: findAll_def fresh_handle memory_model_def memory_find_exec_def)
  have "?cat \<in> set [?cat]"
    using findAll_after_create_includes_record [OF read_your_writes created listed] .
  with created listed show ?thesis
    by blast
qed

text \<open>
  C4. \<open>create\<close> and \<open>findAll\<close> raise an error exactly when an operation of the handle
  raises it, and the error is the handle's own: \<open>create\<close> raises \<open>e\<close> if and only if
  building the document raises \<open>e\<close>, or the document is built and saving it raises \<open>e\<close>;
  \<open>findAll\<close> raises \<open>e\<close> if and only if the query raises \<open>e\<close>. The world they leave is
  the one left by the single attempt: nothing is tried again and nothing is undone.
\<close>

theorem storage_failure_propagates_unchanged:
  "(fst (create input st) = Inl e) =
     (fst (new_doc (catModel (this st)) input (world st)) = Inl e \<or>
      (\<exists>createdCat w1. new_doc (catModel (this st)) input (world st) = (Inr createdCat, w1) \<and>
         fst (save (catModel (this st)) createdCat w1) = Inl e)) \<and>
   world (snd (create input st)) =
     (case new_doc (catModel (this st)) input (world st) of
        (Inl e', w1) \<Rightarrow> w1
      | (Inr createdCat, w1) \<Rightarrow> snd (save (catModel (this st)) createdCat w1)) \<and>
   (fst (findAll st) = Inl e) = (fst (find_exec (catModel (this st)) (world st)) = Inl e) \<and>
   world (snd (findAll st)) = snd (find_exec (catModel (this st)) (world st))"
proof -
  have c1: "(fst (create input st) = Inl e) =
     (fst (new_doc (catModel (this st)) input (world st)) = Inl e \<or>
      (\<exists>createdCat w1. new_doc (catModel (this st)) input (world st) = (Inr createdCat, w1) \<and>
         fst (save (catModel (this st)) createdCat w1) = Inl e))"
    by (auto simp: create_def split: prod.splits sum.splits)
  have c2: "world (snd (create input st)) =
     (case new_doc (catModel (this st)) input (world st) of
        (Inl e', w1) \<Rightarrow> w1
      | (Inr createdCat, w1) \<Rightarrow> snd (save (catModel (this st)) createdCat w1))"
    by (simp add: create_def split: prod.splits sum.splits)
  have f1: "(fst (findAll st) = Inl e) = (fst (find_exec (catModel (this st)) (world st)) = Inl e)"
    by (simp add: findAll_def split: prod.splits)
  have f2: "world (snd (findAll st)) = snd (find_exec (catModel (this st)) (world st))"
    by (simp add: findAll_def split: prod.splits)
  from c1 c2 f1 f2 show ?thesis
    by blast
qed

text \<open>
  C5. When the query of the handle finds the collection empty, \<open>findAll\<close> returns the
  empty sequence, and no error.
\<close>

theorem findAll_empty_collection:
  assumes "find_exec (catModel (this st)) (world st) = (Inr [], w')"
  shows "findAll st = (Inr [], st\<lparr>world := w'\<rparr>)"
  using assms by (simp add: findAll_def)

theorem findAll_empty_collection_witness:
  "stored (world fresh_state) = [] \<and> findAll fresh_state = (Inr [], fresh_state)"
proof -
  have empty: "find_exec (catModel (this fresh_state)) (world fresh_state) =
      (Inr [], world fresh_state)"
    by (simp add: fresh_handle fresh_world memory_model_def memory_find_exec_def
        empty_memory_def)
  have "findAll fresh_state = (Inr [], fresh_state\<lparr>world := world fresh_state\<rparr>)"
    using findAll_empty_collection [OF empty] .
  then show ?thesis
    by (simp add: fresh_world empty_memory_def)
qed

text \<open>
  C8. \<open>create\<close> checks nothing of its own: whatever the input, a negative \<open>age\<close> or an
  \<open>owner\<close> that refers to no Owner record included, once the handle builds the document
  and saves it, \<open>create\<close> returns the persisted record. The witness creates a cat of age
  \<open>-3\<close> whose owner does not exist.
\<close>

theorem create_performs_no_validation:
  assumes "new_doc (catModel (this st)) (input\<lparr>age := a, owner := ow\<rparr>) (world st) =
      (Inr createdCat, w1)"
    and "save (catModel (this st)) createdCat w1 = (Inr persisted, w2)"
  shows "create (input\<lparr>age := a, owner := ow\<rparr>) st = (Inr persisted, st\<lparr>world := w2\<rparr>)"
  using assms by (simp add: create_def)

theorem create_performs_no_validation_witness:
  "create (tom\<lparr>age := - 3, owner := Some ''no-such-owner''\<rparr>) fresh_state =
     (Inr \<lparr>name = ''Tom'', age = - 3, breed = ''Tabby'', tags = [],
           owner = Some ''no-such-owner'', cat_id = ''cat0''\<rparr>,
      fresh_state\<lparr>world := \<lparr>stored = [\<lparr>name = ''Tom'', age = - 3, breed = ''Tabby'',
           tags = [], owner = Some ''no-such-owner'', cat_id = ''cat0''\<rparr>],
         counter = Suc 0, connected = True\<rparr>\<rparr>)"
proof -
  let ?cat = "\<lparr>name = ''Tom'', age = - 3, breed = ''Tabby'', tags = [],
    owner = Some ''no-such-owner'', cat_id = ''cat0''\<rparr>"
  let ?w1 = "\<lparr>stored = [], counter = Suc 0, connected = True\<rparr>"
  let ?w2 = "\<lparr>stored = [?cat], counter = Suc 0, connected = True\<rparr>"
  have built: "new_doc (catModel (this fresh_state))
      (tom\<lparr>age := - 3, owner := Some ''no-such-owner''\<rparr>) (world fresh_state) = (Inr ?cat, ?w1)"
    by (simp add: fresh_handle fresh_world memory_model_def memory_new_doc_def tom_def
        empty_memory_def decimal.simps digit_char_def)
  have saved: "save (catModel (this fresh_state)) ?cat ?w1 = (Inr ?cat, ?w2)"
    by (simp add: fresh_handle memory_model_def memory_save_def)
  show ?thesis
    using create_performs_no_validation [OF built saved] .
qed

subsection \<open>The three stubs\<close>

text \<open>
  C3. For every numeric identifier (a safe integer), \<open>findOne\<close> returns the placeholder
  text \<open>This action returns a #<id> cat\<close>, where \<open><id>\<close> is the decimal numeral of the
  identifier, and nothing else happens: the state is returned as it was, and the text is
  the same in every other state, whatever the handle and the world. For the identifier 5
  the text is \<open>This action returns a #5 cat\<close>.
\<close>

theorem findOne_placeholder:
  assumes "isSafeInteger id'"
  shows "(\<exists>s. read_integer s = Some id' \<and>
      findOne id' st = (''This action returns a #'' @ s @ '' cat'', st) \<and>
      fst (findOne id' st') = ''This action returns a #'' @ s @ '' cat'') \<and>
    findOne 5 st = (''This action returns a #5 cat'', st)"
proof -
  have "read_integer (ToString id') = Some id'"
    by (rule read_integer_ToString)
  moreover have "findOne id' st = (''This action returns a #'' @ ToString id' @ '' cat'', st)"
    and "fst (findOne id' st') = ''This action returns a #'' @ ToString id' @ '' cat''"
    by (simp_all add: findOne_def)
  moreover have "findOne 5 st = (''This action returns a #5 cat'', st)"
    by (simp add: findOne_def ToString_def decimal.simps digit_char_def)
  ultimately show ?thesis
    by blast
qed

theorem findOne_placeholder_witness:
  "isSafeInteger 9007199254740991 \<and>
   findOne 9007199254740991 fresh_state =
     (''This action returns a #9007199254740991 cat'', fresh_state)"
proof -
  have safe: "isSafeInteger 9007199254740991"
    by (simp add: isSafeInteger_def)
  obtain s where reads: "read_integer s = Some 9007199254740991"
    and returned: "findOne 9007199254740991 fresh_state =
      (''This action returns a #'' @ s @ '' cat'', fresh_state)"
    using findOne_placeholder [OF safe, of fresh_state fresh_state] by blast
  have "s = ToString 9007199254740991"
    using reads by (rule read_integer_unique)
  then have "s = ''9007199254740991''"
    by (simp add: ToString_def decimal.simps digit_char_def)
  with safe returned show ?thesis
    by simp
qed

text \<open>
  C6. For every numeric identifier (a safe integer) and every update input, \<open>update\<close>
  returns the text \<open>This action updates a #<id> cat\<close> and \<open>remove\<close> returns the text
  \<open>This action removes a #<id> cat\<close>, where \<open><id>\<close> is the decimal numeral of the
  identifier, and both return the state as it was; for the identifier 5 the texts are
  \<open>This action updates a #5 cat\<close> and \<open>This action removes a #5 cat\<close>.
\<close>

theorem update_remove_placeholder:
  assumes "isSafeInteger id'"
  shows "(\<exists>s. read_integer s = Some id' \<and>
      update id' updateCatDto st = (''This action updates a #'' @ s @ '' cat'', st) \<and>
      remove id' st = (''This action removes a #'' @ s @ '' cat'', st)) \<and>
    fst (update 5 updateCatDto st) = ''This action updates a #5 cat'' \<and>
    fst (remove 5 st) = ''This action removes a #5 cat''"
proof -
  have "read_integer (ToString id') = Some id'"
    by (rule read_integer_ToString)
  moreover have
    "update id' updateCatDto st = (''This action updates a #'' @ ToString id' @ '' cat'', st)"
    and "remove id' st = (''This action removes a #'' @ ToString id' @ '' cat'', st)"
    by (simp_all add: update_def remove_def)
  moreover have "fst (update 5 updateCatDto st) = ''This action updates a #5 cat''"
    and "fst (remove 5 st) = ''This action removes a #5 cat''"
    by (simp_all add: update_def remove_def ToString_def decimal.simps digit_char_def)
  ultimately show ?thesis
    by blast
qed

theorem update_remove_placeholder_witness:
  "isSafeInteger (- 120) \<and>
   update (- 120) \<lparr>new_name = Some ''Tim'', new_age = None, new_breed = None,
       new_tags = None, new_owner = None\<rparr> fresh_state =
     (''This action updates a #-120 cat'', fresh_state) \<and>
   remove (- 120) fresh_state = (''This action removes a #-120 cat'', fresh_state)"
proof -
  let ?dto = "\<lparr>new_name = Some ''Tim'', new_age = None, new_breed = None,
    new_tags = None, new_owner = None\<rparr>"
  have safe: "isSafeInteger (- 120)"
    by (simp add: isSafeInteger_def)
  obtain s where reads: "read_integer s = Some (- 120)"
    and updated: "update (- 120) ?dto fresh_state =
      (''This action updates a #'' @ s @ '' cat'', fresh_state)"
    and removed: "remove (- 120) fresh_state =
      (''This action removes a #'' @ s @ '' cat'', fresh_state)"
    using update_remove_placeholder [OF safe, of ?dto fresh_state] by blast
  have "s = ToString (- 120)"
    using reads by (rule read_integer_unique)
  then have "s = ''-120''"
    by (simp add: ToString_def decimal.simps digit_char_def)
  with safe updated removed show ?thesis
    by simp
qed

text \<open>
  C7. The stubs never fail and touch nothing: called on any service, with any handle and
  any world, \<open>findOne\<close>, \<open>update\<close> and \<open>remove\<close> return a text, never an error, and the
  state after the call, the world of the collection included, is the state before it.
\<close>

theorem stubs_never_fail_and_change_nothing:
  "(\<exists>s. invoke (FindOne id') st = (Inr (Text s), st)) \<and>
   (\<exists>s. invoke (Update id' updateCatDto) st = (Inr (Text s), st)) \<and>
   (\<exists>s. invoke (Remove id') st = (Inr (Text s), st)) \<and>
   snd (findOne id' st) = st \<and> snd (update id' updateCatDto st) = st \<and>
   snd (remove id' st) = st"
  by (simp add: findOne_def update_def remove_def)

text \<open>
  C10. \<open>update\<close> ignores its update input: with the same identifier, two calls that
  differ only in the update input return the same text and leave the same state, which
  is the state they started in.
\<close>

theorem update_ignores_its_input:
  "update id' dto1 st = update id' dto2 st \<and>
   invoke (Update id' dto1) st = invoke (Update id' dto2) st \<and>
   snd (update id' dto1 st) = st"
  by (simp add: update_def)

subsection \<open>The service object\<close>

text \<open>
  C9. The service keeps the handle it was constructed with: after any sequence of calls
  of \<open>create\<close>, \<open>findAll\<close>, \<open>findOne\<close>, \<open>update\<close> and \<open>remove\<close>, the service object is
  the one the constructor built, and its \<open>catModel\<close> is the handle given to the
  constructor.
\<close>

theorem service_keeps_its_handle:
  "this (snd (calls cs \<lparr>this = constructor m, world = w\<rparr>)) = constructor m \<and>
   catModel (this (snd (calls cs \<lparr>this = constructor m, world = w\<rparr>))) = m"
  by (simp add: calls_this constructor_def)

end
